theory Spec2Isabelle
  imports Complex_Main "HOL-Library.AList"
begin

section \<open>Common helpers\<close>

text \<open>
  JavaScript strings are modelled as \<open>string\<close> (the bytes of their UTF-8 form), byte
  counts and sizes as \<open>nat\<close>, clock readings (\<open>Date.now()\<close>, milliseconds) as \<open>int\<close>,
  and the numbers that come out of a division (progress, speed, ETA) as exact rationals.
  A thrown \<open>Error(msg)\<close> is the value \<open>Inl msg\<close>.
\<close>

text \<open>The decimal rendering of a non-negative integer inside a template literal.\<close>

definition digit_char :: "nat \<Rightarrow> char" where
  "digit_char d = ''0123456789'' ! d"

fun digits :: "nat \<Rightarrow> string" where
  "digits n = (if n < 10 then [digit_char n] else digits (n div 10) @ [digit_char (n mod 10)])"

declare digits.simps [simp del]

text \<open>
  \<open>encodeURIComponent\<close>: every byte outside \<open>A-Z a-z 0-9 - _ . ! ~ * ' ( )\<close> becomes
  \<open>%XX\<close> in upper-case hexadecimal.
\<close>

definition uri_unreserved :: "char set" where
  "uri_unreserved = set (''ABCDEFGHIJKLMNOPQRSTUVWXYZabcdefghijklmnopqrstuvwxyz0123456789''
                          @ ''-_.!~*()'' @ [CHR 0x27])"

definition hex_char :: "nat \<Rightarrow> char" where
  "hex_char d = ''0123456789ABCDEF'' ! d"

definition encodeURIComponent :: "string \<Rightarrow> string" where
  "encodeURIComponent s =
     concat (map (\<lambda>c. if c \<in> uri_unreserved then [c]
                       else [CHR ''%'', hex_char (of_char c div 16), hex_char (of_char c mod 16)]) s)"


section \<open>Model downloader (backend/services/modelDownloader.js)\<close>

subsection \<open>Data\<close>

datatype download_status = PENDING | DOWNLOADING | PAUSED | COMPLETED | FAILED | CANCELLED

text \<open>
  A value of the \<open>job.files\<close> map. The source writes three shapes of object into it
  (initial, in progress, finished); \<open>speed\<close> and \<open>eta\<close> exist only in the second one and
  \<open>complete\<close> is missing there. \<open>complete\<close> is only ever read for its truthiness, so a
  missing \<open>complete\<close> is \<open>False\<close>.
\<close>

record file_progress =
  f_size :: nat
  f_downloaded :: nat
  f_progress :: rat
  f_speed :: "rat option"
  f_eta :: "rat option"
  f_complete :: bool

text \<open>
  A value of the module-level \<open>downloadJobs\<close> map. \<open>j_files\<close> is the JavaScript \<open>Map\<close>
  from destination path to file record, in insertion order. \<open>j_abortController\<close> is
  \<open>None\<close> while the job has no controller and \<open>Some b\<close> for a controller whose signal has
  \<open>aborted = b\<close>.
\<close>

record download_job =
  j_id :: string
  j_repo :: string
  j_status :: download_status
  j_files :: "(string \<times> file_progress) list"
  j_progress :: rat
  j_bytesDownloaded :: nat
  j_totalBytes :: nat
  j_speed :: rat
  j_eta :: rat
  j_startTime :: int
  j_completedAt :: "int option"
  j_pausedAt :: "int option"
  j_error :: "string option"
  j_abortController :: "bool option"

record request =
  q_url :: string
  q_method :: string
  q_headers :: "(string \<times> string) list"

text \<open>
  What \<open>fetch\<close> resolves to, as far as \<open>downloadFile\<close> reads it. The two headers are
  taken parsed: \<open>r_content_length\<close> is \<open>parseInt\<close> of \<open>Content-Length\<close> (\<open>None\<close> when the
  header is missing) and \<open>r_content_range\<close> is the total captured by the pattern
  \<open>bytes \\d+-\\d+/(\\d+)\<close> in \<open>Content-Range\<close> (\<open>None\<close> when the header is missing or
  does not match). \<open>r_body\<close> says that \<open>response.body\<close> is a stream; it is \<open>null\<close> for an
  answer that has no body, such as 204.
\<close>

record response =
  r_status :: nat
  r_content_length :: "nat option"
  r_content_range :: "nat option"
  r_body :: bool

definition ok :: "nat \<Rightarrow> bool" where
  "ok status = (200 \<le> status \<and> status \<le> 299)"

text \<open>The argument of the \<open>onProgress\<close> call of the \<open>data\<close> handler (numeric fields).\<close>

record progress_event =
  e_jobId :: string
  e_fileIndex :: nat
  e_totalFiles :: nat
  e_fileProgress :: rat
  e_overallProgress :: rat
  e_bytesDownloaded :: nat
  e_totalBytes :: nat
  e_currentFile_path :: string
  e_currentFile_downloaded :: nat
  e_currentFile_total :: nat

text \<open>
  The argument of the \<open>onProgress\<close> call that \<open>downloadModel\<close> makes after each file
  (\<open>fileComplete: true\<close>; its \<open>message\<close> is \<open>Completed\<close> followed by the file name).
\<close>

record file_completion =
  fc_jobId :: string
  fc_fileIndex :: nat
  fc_totalFiles :: nat
  fc_fileName :: string

text \<open>
  Everything the downloader reads and writes: the \<open>downloadJobs\<close> map, the regular files
  on disk with their contents, the requests sent so far, and the two kinds of calls made
  to the progress callback so far.
\<close>

record world =
  downloadJobs :: "string \<rightharpoonup> download_job"
  fs :: "string \<rightharpoonup> string"
  requests :: "request list"
  progress_events :: "progress_event list"
  file_completions :: "file_completion list"

record download_result =
  d_path :: string
  d_size :: nat
  d_resumed :: bool
  d_skipped :: bool

text \<open>
  The local variables of one \<open>downloadFile\<close> call that its stream handlers share.
  \<open>c_aborted\<close> is \<open>signal?.aborted\<close> as it stands when a handler runs.
\<close>

record dl_ctx =
  c_jobId :: string
  c_destinationPath :: string
  c_fileIndex :: nat
  c_totalFiles :: nat
  c_totalBytes :: nat
  c_startPosition :: nat
  c_bytesDownloaded :: nat
  c_lastUpdateTime :: int
  c_lastBytesDownloaded :: nat
  c_aborted :: bool

subsection \<open>Progress arithmetic\<close>





subsection \<open>The stream handlers of downloadFile\<close>



text \<open>
  The \<open>end\<close> handler: the file record is replaced by the finished shape, the only place
  where a record gets \<open>complete: true\<close>.
\<close>

definition on_end :: "dl_ctx \<times> world \<Rightarrow> (string + download_result) \<times> world" where
  "on_end cw =
     (case cw of (c, w) \<Rightarrow>
        (Inr \<lparr>d_path = c_destinationPath c, d_size = c_bytesDownloaded c,
              d_resumed = (c_startPosition c > 0), d_skipped = False\<rparr>,
         (case downloadJobs w (c_jobId c) of
            None \<Rightarrow> w
          | Some job \<Rightarrow>
              w\<lparr>downloadJobs := (downloadJobs w)(c_jobId c \<mapsto>
                   job\<lparr>j_files := AList.update (c_destinationPath c)
                          \<lparr>f_size = c_totalBytes c, f_downloaded = c_bytesDownloaded c,
                           f_progress = 100, f_speed = None, f_eta = None, f_complete = True\<rparr>
                          (j_files job)\<rparr>)\<rparr>)))"

subsection \<open>downloadFile\<close>

text \<open>
  \<open>fileProgress && fileProgress.complete\<close> for \<open>fileProgress = job.files.get(path)\<close>.
\<close>

definition marked_complete :: "download_job \<Rightarrow> string \<Rightarrow> bool" where
  "marked_complete job path =
     (case map_of (j_files job) path of None \<Rightarrow> False | Some fileProgress \<Rightarrow> f_complete fileProgress)"

text \<open>The \<open>options\<close> of the \<open>fetch\<close> call, with its URL.\<close>

definition request_options :: "string \<Rightarrow> nat \<Rightarrow> request" where
  "request_options url startPosition =
     \<lparr>q_url = url, q_method = ''GET'',
      q_headers = (if startPosition > 0
                   then [(''Range'', ''bytes='' @ digits startPosition @ ''-'')]
                   else [])\<rparr>"

text \<open>
  The message of the \<open>TypeError\<close> (\<open>ERR_INVALID_ARG_TYPE\<close>) that \<open>Readable.fromWeb\<close> throws
  when its argument is not a \<open>ReadableStream\<close>; here the argument is the reader that
  \<open>response.body.getReader()\<close> returned.
\<close>

definition fromWeb_TypeError :: string where
  "fromWeb_TypeError =
     ''The '' @ [CHR 0x22] @ ''readableStream'' @ [CHR 0x22]
     @ '' argument must be an instance of ReadableStream.''
     @ '' Received an instance of ReadableStreamDefaultReader''"

text \<open>The message of the \<open>TypeError\<close> of \<open>response.body.getReader()\<close> for a \<open>null\<close> body.\<close>

definition getReader_TypeError :: string where
  "getReader_TypeError =
     ''Cannot read properties of null (reading '' @ [CHR 0x27] @ ''getReader'' @ [CHR 0x27] @ '')''"

text \<open>
  \<open>downloadFile\<close>. \<open>fetch\<close> answers a request with a rejection (\<open>Inl\<close>) or a response;
  \<open>signal\<close> is \<open>None\<close> for a missing signal and \<open>Some b\<close> for one with \<open>aborted = b\<close> at the
  time of the call. \<open>statSync\<close> of a missing file throws. On a 2xx or 206 answer the
  function reads the total size from the headers, opens the write stream (flag \<open>w\<close>
  creates or empties the file, flag \<open>a\<close> keeps its contents) and then calls
  \<open>Readable.fromWeb(response.body.getReader())\<close> (lines 238-239): \<open>fromWeb\<close> takes a
  \<open>ReadableStream\<close>, it is handed a reader, and it throws (for an answer without a
  body, \<open>getReader\<close> is called on \<open>null\<close> and throws before that). The call is rejected
  with that \<open>TypeError\<close>; the Promise executor after it is not run, so no handler is
  attached, no chunk is written, no record is updated and no progress event is emitted. The
  parameters \<open>fileIndex\<close>, \<open>totalFiles\<close> and \<open>onProgress\<close> are read by the handlers only.
  The creation of the destination directory is not modelled.
\<close>

definition downloadFile ::
  "(request \<Rightarrow> string + response) \<Rightarrow> string \<Rightarrow> string \<Rightarrow> string \<Rightarrow> nat \<Rightarrow> nat \<Rightarrow> bool option
     \<Rightarrow> world \<Rightarrow> (string + download_result) \<times> world" where
  "downloadFile fetch url destinationPath jobId fileIndex totalFiles signal w =
     (case downloadJobs w jobId of
        None \<Rightarrow> (Inl ''Download job not found'', w)
      | Some job \<Rightarrow>
          if signal = Some True then (Inl ''Download cancelled'', w)
          else
            let startPosition = (case fs w destinationPath of None \<Rightarrow> 0 | Some content \<Rightarrow> length content)
            in if fs w destinationPath \<noteq> None \<and> marked_complete job destinationPath
               then (Inr \<lparr>d_path = destinationPath, d_size = startPosition,
                          d_resumed = False, d_skipped = True\<rparr>, w)
               else
                 let options = request_options url startPosition;
                     w1 = w\<lparr>requests := requests w @ [options]\<rparr>
                 in (case fetch options of
                       Inl err \<Rightarrow> (Inl err, w1)
                     | Inr response \<Rightarrow>
                         if r_status response = 416
                         then (case fs w1 destinationPath of
                                 None \<Rightarrow> (Inl ''ENOENT: no such file or directory'', w1)
                               | Some content \<Rightarrow>
                                   (Inr \<lparr>d_path = destinationPath, d_size = length content,
                                         d_resumed = False, d_skipped = True\<rparr>, w1))
                         else if \<not> ok (r_status response) \<and> r_status response \<noteq> 206
                         then (Inl (''HTTP error! status: '' @ digits (r_status response)), w1)
                         else
                           (Inl (if r_body response then fromWeb_TypeError else getReader_TypeError),
                            w1\<lparr>fs := (if startPosition > 0 then fs w1
                                       else (fs w1)(destinationPath \<mapsto> []))\<rparr>)))"

subsection \<open>Status, cancel, pause, resume\<close>



text \<open>
  The clean-up loop of \<open>cancelDownload\<close>. \<open>unlink_fails path\<close> says that \<open>unlinkSync\<close>
  throws for that path; the source catches and logs the error and goes on.
\<close>

fun unlink_partial :: "(string \<Rightarrow> bool) \<Rightarrow> (string \<times> file_progress) list \<Rightarrow> (string \<rightharpoonup> string)
                         \<Rightarrow> (string \<rightharpoonup> string)" where
  "unlink_partial unlink_fails [] files = files"
| "unlink_partial unlink_fails ((path, file) # rest) files =
     unlink_partial unlink_fails rest
       (if \<not> f_complete file \<and> files path \<noteq> None
        then (if unlink_fails path then files else files(path := None))
        else files)"

definition abort :: "bool option \<Rightarrow> bool option" where
  "abort controller = (case controller of None \<Rightarrow> None | Some _ \<Rightarrow> Some True)"

definition cancelDownload :: "(string \<Rightarrow> bool) \<Rightarrow> string \<Rightarrow> world \<Rightarrow> (string + unit) \<times> world" where
  "cancelDownload unlink_fails jobId w =
     (case downloadJobs w jobId of
        None \<Rightarrow> (Inl ''Download job not found'', w)
      | Some job \<Rightarrow>
          if j_status job = COMPLETED then (Inl ''Cannot cancel completed download'', w)
          else
            (Inr (),
             w\<lparr>downloadJobs := (downloadJobs w)(jobId \<mapsto>
                  job\<lparr>j_abortController := abort (j_abortController job), j_status := CANCELLED\<rparr>),
               fs := unlink_partial unlink_fails (j_files job) (fs w)\<rparr>))"

definition pauseDownload :: "int \<Rightarrow> string \<Rightarrow> world \<Rightarrow> (string + unit) \<times> world" where
  "pauseDownload now jobId w =
     (case downloadJobs w jobId of
        None \<Rightarrow> (Inl ''Download job not found'', w)
      | Some job \<Rightarrow>
          if j_status job \<noteq> DOWNLOADING then (Inl ''Can only pause active downloads'', w)
          else
            (Inr (),
             w\<lparr>downloadJobs := (downloadJobs w)(jobId \<mapsto>
                  job\<lparr>j_abortController := abort (j_abortController job), j_status := PAUSED,
                      j_pausedAt := Some now\<rparr>)\<rparr>))"

text \<open>
  \<open>resumeDownload\<close>. \<open>filesToDownload\<close> gets one entry per file whose record is not
  complete; the entries (base name and directory of the path) are never read, only
  counted, so the list holds the paths.
\<close>

definition filesToDownload :: "download_job \<Rightarrow> string list" where
  "filesToDownload job = map fst (filter (\<lambda>(path, file). \<not> f_complete file) (j_files job))"

definition resumeDownload :: "string \<Rightarrow> world \<Rightarrow> (string + unit) \<times> world" where
  "resumeDownload jobId w =
     (case downloadJobs w jobId of
        None \<Rightarrow> (Inl ''Download job not found'', w)
      | Some job \<Rightarrow>
          if j_status job \<noteq> PAUSED then (Inl ''Can only resume paused downloads'', w)
          else if length (filesToDownload job) = 0
          then (Inr (), w\<lparr>downloadJobs := (downloadJobs w)(jobId \<mapsto> job\<lparr>j_status := COMPLETED\<rparr>)\<rparr>)
          else
            (Inl ''Resume requires original download parameters. Please restart the download.'',
             w\<lparr>downloadJobs := (downloadJobs w)(jobId \<mapsto>
                  job\<lparr>j_status := DOWNLOADING, j_abortController := Some False\<rparr>)\<rparr>))"

subsection \<open>Registry metadata\<close>

datatype json = JNull | JBool bool | JNum rat | JStr string | JArr "json list"
  | JObj "(string \<times> json) list"

text \<open>JavaScript truthiness of a parsed JSON value.\<close>

fun truthy :: "json \<Rightarrow> bool" where
  "truthy JNull = False"
| "truthy (JBool b) = b"
| "truthy (JNum x) = (x \<noteq> 0)"
| "truthy (JStr s) = (s \<noteq> [])"
| "truthy (JArr xs) = True"
| "truthy (JObj members) = True"

text \<open>
  The property read \<open>data.siblings\<close>: a \<open>TypeError\<close> on \<open>null\<close>, the field of an object
  (\<open>None\<close> is \<open>undefined\<close>), and \<open>undefined\<close> on every other value.
\<close>

fun siblings_prop :: "json \<Rightarrow> string + json option" where
  "siblings_prop JNull = Inl ''Cannot read properties of null (reading siblings)''"
| "siblings_prop (JObj members) = Inr (map_of members ''siblings'')"
| "siblings_prop v = Inr None"

text \<open>
  What \<open>fetch\<close> resolves to for a metadata request; \<open>a_json\<close> is the outcome of
  \<open>response.json()\<close>, which rejects on a malformed body.
\<close>

record api_response =
  a_status :: nat
  a_statusText :: string
  a_json :: "string + json"

definition HF_API_BASE :: string where
  "HF_API_BASE = ''https://huggingface.co''"

definition HF_API_MODELS :: string where
  "HF_API_MODELS = HF_API_BASE @ ''/api/models''"


text \<open>The request each of the two functions hands to \<open>fetch\<close>.\<close>

definition getHuggingFaceModelInfo_request :: "string \<Rightarrow> request" where
  "getHuggingFaceModelInfo_request repo =
     \<lparr>q_url = HF_API_MODELS @ ''/'' @ encodeURIComponent repo, q_method = ''GET'',
      q_headers = [(''Accept'', ''application/json'')]\<rparr>"

definition getHuggingFaceModelFiles_request :: "string \<Rightarrow> request" where
  "getHuggingFaceModelFiles_request repo =
     \<lparr>q_url = HF_API_BASE @ ''/api/models/'' @ encodeURIComponent repo, q_method = ''GET'',
      q_headers = [(''Accept'', ''application/json'')]\<rparr>"

definition getHuggingFaceModelInfo :: "(request \<Rightarrow> string + api_response) \<Rightarrow> string \<Rightarrow> string + json" where
  "getHuggingFaceModelInfo fetch repo =
     (case fetch (getHuggingFaceModelInfo_request repo) of
        Inl err \<Rightarrow> Inl err
      | Inr response \<Rightarrow>
          if \<not> ok (a_status response)
          then (if a_status response = 404
                then Inl (''Model repository not found: '' @ repo)
                else Inl (''Failed to fetch model info: '' @ digits (a_status response) @ '' ''
                          @ a_statusText response))
          else a_json response)"

definition getHuggingFaceModelFiles :: "(request \<Rightarrow> string + api_response) \<Rightarrow> string \<Rightarrow> string + json" where
  "getHuggingFaceModelFiles fetch repo =
     (case fetch (getHuggingFaceModelFiles_request repo) of
        Inl err \<Rightarrow> Inl err
      | Inr response \<Rightarrow>
          if \<not> ok (a_status response)
          then Inl (''Failed to fetch model files: '' @ digits (a_status response) @ '' ''
                    @ a_statusText response)
          else (case a_json response of
                  Inl err \<Rightarrow> Inl err
                | Inr data \<Rightarrow>
                    (case siblings_prop data of
                       Inl err \<Rightarrow> Inl err
                     | Inr None \<Rightarrow> Inr (JArr [])
                     | Inr (Some siblings) \<Rightarrow>
                         Inr (if truthy siblings then siblings else JArr []))))"



subsection \<open>downloadModel\<close>













section \<open>Queue processor (services/queueProcessor.js)\<close>

subsection \<open>Data\<close>

text \<open>
  A row of the queue as the processor reads it. Optional columns are \<open>option\<close>s;
  \<open>job_type\<close> and \<open>job_status\<close> are the strings the source compares and writes.
\<close>

record job =
  job_id :: string
  job_type :: string
  job_model :: "string option"
  job_prompt :: "string option"
  job_negative_prompt :: "string option"
  job_size :: "string option"
  job_seed :: "string option"
  job_n :: "nat option"
  job_quality :: "string option"
  job_style :: "string option"
  job_source_image_id :: "string option"
  job_status :: string
  job_progress :: rat
  job_error :: "string option"
  job_generation_id :: "string option"
  job_created_at :: nat

text \<open>
  The \<open>params\<close> object handed to \<open>generateImageDirect\<close>. \<open>p_seed\<close> is \<open>None\<close> for \<open>null\<close>
  (and for a \<open>NaN\<close> out of \<open>parseInt\<close>).
\<close>

record params =
  p_prompt :: "string option"
  p_negative_prompt :: "string option"
  p_size :: "string option"
  p_seed :: "int option"
  p_n :: "nat option"
  p_quality :: "string option"
  p_style :: "string option"

record image_data =
  b64_json :: "string option"
  revised_prompt :: "string option"

text \<open>The engine's answer; \<open>data\<close> is \<open>None\<close> when the field is missing.\<close>

record gen_response =
  data :: "image_data list option"

record generation =
  g_id :: string
  g_type :: string
  g_model :: "string option"
  g_prompt :: "string option"
  g_negative_prompt :: "string option"
  g_size :: "string option"
  g_seed :: "string option"
  g_n :: "nat option"
  g_quality :: "string option"
  g_style :: "string option"
  g_source_image_id :: "string option"

text \<open>\<open>i_image_data\<close> holds the base64 text the buffer is decoded from.\<close>

record generated_image =
  i_id :: string
  i_generation_id :: string
  i_index_in_batch :: nat
  i_image_data :: string
  i_mime_type :: string
  i_revised_prompt :: "string option"

text \<open>The third argument of \<open>updateJobStatus\<close>.\<close>

datatype extras = NoExtras | GenerationId string | ErrorMessage string

text \<open>
  The calls the processor makes into the modules it imports (\<open>db/queueQueries.js\<close>,
  \<open>db/queries.js\<close>, \<open>services/imageService.js\<close>), in the order it makes them. The
  progress values a job publishes are the arguments of its \<open>UpdateJobProgress\<close> calls.
\<close>

datatype call =
    UpdateJobStatus string string extras
  | UpdateJobProgress string rat
  | GenerateImageDirect params string
  | CreateGeneration generation
  | CreateGeneratedImage generated_image

text \<open>
  What those modules and the runtime answer. \<open>generateImageDirect\<close> rejects with a
  message (\<open>Inl\<close>) or resolves to a response; \<open>createGeneration\<close> and
  \<open>createGeneratedImage\<close> throw the message they return, if any; \<open>randomUUID k\<close> is the
  \<open>k\<close>-th identifier drawn while one job is processed. The calls into the queue table
  (\<open>updateJobStatus\<close>, \<open>updateJobProgress\<close>) are taken not to throw here; what
  \<open>processQueue\<close> does when they throw is modelled further down.
\<close>

record env =
  generateImageDirect :: "params \<Rightarrow> string \<Rightarrow> string + gen_response"
  createGeneration :: "generation \<Rightarrow> string option"
  createGeneratedImage :: "generated_image \<Rightarrow> string option"
  randomUUID :: "nat \<Rightarrow> string"
  parseInt :: "string \<Rightarrow> int option"

text \<open>The module-level variables \<open>isProcessing\<close> and \<open>currentJob\<close>.\<close>

record processor =
  isProcessing :: bool
  currentJob :: "job option"

subsection \<open>Job handlers\<close>

definition seed_param :: "env \<Rightarrow> job \<Rightarrow> int option" where
  "seed_param env job =
     (case job_seed job of None \<Rightarrow> None
      | Some s \<Rightarrow> if s \<noteq> [] then parseInt env s else None)"

definition n_or_1 :: "job \<Rightarrow> nat" where
  "n_or_1 job = (case job_n job of None \<Rightarrow> 1 | Some k \<Rightarrow> if k = 0 then 1 else k)"

text \<open>
  The loop over \<open>response.data\<close>, which the three handlers share word for word: image
  \<open>i\<close> is stored under the \<open>(i+1)\<close>-th fresh identifier. \<open>Buffer.from\<close> throws on a missing
  \<open>b64_json\<close>. The result is the calls made and the error that stopped the loop, if any.
\<close>

fun save_images :: "env \<Rightarrow> string \<Rightarrow> image_data list \<Rightarrow> nat \<Rightarrow> call list \<times> string option" where
  "save_images env generationId [] i = ([], None)"
| "save_images env generationId (imageData # rest) i =
     (case b64_json imageData of
        None \<Rightarrow> ([], Some ''The first argument must be of type string or an instance of Buffer'')
      | Some b64 \<Rightarrow>
          let image = \<lparr>i_id = randomUUID env (Suc i), i_generation_id = generationId,
                       i_index_in_batch = i, i_image_data = b64, i_mime_type = ''image/png'',
                       i_revised_prompt = revised_prompt imageData\<rparr>
          in (case createGeneratedImage env image of
                Some err \<Rightarrow> ([CreateGeneratedImage image], Some err)
              | None \<Rightarrow>
                  (case save_images env generationId rest (Suc i) of
                     (calls, r) \<Rightarrow> (CreateGeneratedImage image # calls, r))))"

text \<open>
  Everything a handler does once \<open>params\<close> is built and the progress calls before the
  engine call are made: the engine call, progress 0.7, the generation record, progress
  0.9, the images. The result is the calls and either the error thrown or the value
  returned (the generation id).
\<close>

definition generate_and_store ::
  "env \<Rightarrow> job \<Rightarrow> params \<Rightarrow> string \<Rightarrow> generation \<Rightarrow> call list \<times> (string + string)" where
  "generate_and_store env job ps mode gen =
     (case generateImageDirect env ps mode of
        Inl err \<Rightarrow> ([GenerateImageDirect ps mode], Inl err)
      | Inr response \<Rightarrow>
          (case createGeneration env gen of
             Some err \<Rightarrow>
               ([GenerateImageDirect ps mode, UpdateJobProgress (job_id job) (7/10),
                 CreateGeneration gen], Inl err)
           | None \<Rightarrow>
               (case save_images env (g_id gen) (case data response of None \<Rightarrow> [] | Some imgs \<Rightarrow> imgs) 0 of
                  (calls, r) \<Rightarrow>
                    ([GenerateImageDirect ps mode, UpdateJobProgress (job_id job) (7/10),
                      CreateGeneration gen, UpdateJobProgress (job_id job) (9/10)] @ calls,
                     (case r of Some err \<Rightarrow> Inl err | None \<Rightarrow> Inr (g_id gen))))))"

definition processGenerateJob :: "env \<Rightarrow> job \<Rightarrow> call list \<times> (string + string)" where
  "processGenerateJob env job =
     (let ps = \<lparr>p_prompt = job_prompt job, p_negative_prompt = job_negative_prompt job,
                p_size = job_size job, p_seed = seed_param env job, p_n = job_n job,
                p_quality = job_quality job, p_style = job_style job\<rparr>;
          gen = \<lparr>g_id = randomUUID env 0, g_type = ''generate'', g_model = job_model job,
                 g_prompt = job_prompt job, g_negative_prompt = job_negative_prompt job,
                 g_size = job_size job, g_seed = job_seed job, g_n = job_n job,
                 g_quality = job_quality job, g_style = job_style job,
                 g_source_image_id = None\<rparr>
      in (case generate_and_store env job ps ''generate'' gen of
            (calls, r) \<Rightarrow>
              ([UpdateJobProgress (job_id job) (1/10), UpdateJobProgress (job_id job) (3/10)] @ calls, r)))"

definition processEditJob :: "env \<Rightarrow> job \<Rightarrow> call list \<times> (string + string)" where
  "processEditJob env job =
     (let ps = \<lparr>p_prompt = job_prompt job, p_negative_prompt = job_negative_prompt job,
                p_size = job_size job, p_seed = seed_param env job, p_n = Some (n_or_1 job),
                p_quality = None, p_style = None\<rparr>;
          gen = \<lparr>g_id = randomUUID env 0, g_type = ''edit'', g_model = job_model job,
                 g_prompt = job_prompt job, g_negative_prompt = job_negative_prompt job,
                 g_size = job_size job, g_seed = job_seed job, g_n = Some (n_or_1 job),
                 g_quality = None, g_style = None,
                 g_source_image_id = job_source_image_id job\<rparr>
      in (case generate_and_store env job ps ''edit'' gen of
            (calls, r) \<Rightarrow> ([UpdateJobProgress (job_id job) (3/10)] @ calls, r)))"

definition processVariationJob :: "env \<Rightarrow> job \<Rightarrow> call list \<times> (string + string)" where
  "processVariationJob env job =
     (let ps = \<lparr>p_prompt = job_prompt job, p_negative_prompt = job_negative_prompt job,
                p_size = job_size job, p_seed = seed_param env job, p_n = Some (n_or_1 job),
                p_quality = None, p_style = None\<rparr>;
          gen = \<lparr>g_id = randomUUID env 0, g_type = ''variation'', g_model = job_model job,
                 g_prompt = job_prompt job, g_negative_prompt = job_negative_prompt job,
                 g_size = job_size job, g_seed = job_seed job, g_n = Some (n_or_1 job),
                 g_quality = None, g_style = None,
                 g_source_image_id = job_source_image_id job\<rparr>
      in (case generate_and_store env job ps ''variation'' gen of
            (calls, r) \<Rightarrow> ([UpdateJobProgress (job_id job) (3/10)] @ calls, r)))"

subsection \<open>processQueue\<close>

text \<open>The \<open>switch (job.type)\<close>.\<close>

definition process_job :: "env \<Rightarrow> job \<Rightarrow> call list \<times> (string + string)" where
  "process_job env job =
     (if job_type job = ''generate'' then processGenerateJob env job
      else if job_type job = ''edit'' then processEditJob env job
      else if job_type job = ''variation'' then processVariationJob env job
      else ([], Inl (''Unknown job type: '' @ job_type job)))"

text \<open>
  The \<open>try\<close>/\<open>catch\<close> of \<open>processQueue\<close> for a selected job: status \<open>processing\<close>, the
  handler, then status \<open>completed\<close> with the generation id, or status \<open>failed\<close> with the
  message of whatever was thrown.
\<close>

definition processQueue_run :: "env \<Rightarrow> job \<Rightarrow> call list" where
  "processQueue_run env job =
     (case process_job env job of
        (calls, r) \<Rightarrow>
          [UpdateJobStatus (job_id job) ''processing'' NoExtras] @ calls @
          [case r of
             Inr generationId \<Rightarrow> UpdateJobStatus (job_id job) ''completed'' (GenerationId generationId)
           | Inl message \<Rightarrow> UpdateJobStatus (job_id job) ''failed'' (ErrorMessage message)])"

text \<open>The progress values among a list of calls, in order.\<close>

fun progress_values :: "call list \<Rightarrow> rat list" where
  "progress_values [] = []"
| "progress_values (UpdateJobProgress i p # cs) = p # progress_values cs"
| "progress_values (c # cs) = progress_values cs"

text \<open>The modes of the engine calls among a list of calls.\<close>

fun engine_modes :: "call list \<Rightarrow> string list" where
  "engine_modes [] = []"
| "engine_modes (GenerateImageDirect ps mode # cs) = mode # engine_modes cs"
| "engine_modes (c # cs) = engine_modes cs"


subsection \<open>The queue table\<close>

text \<open>
  \<open>db/queueQueries.js\<close> (\<open>getNextPendingJob\<close>, \<open>updateJobStatus\<close>,
  \<open>updateJobProgress\<close>) is not among the sources; its three functions follow the job
  store of the spec. The table is the list of its rows.
\<close>

type_synonym store = "job list"

text \<open>
  Modelled from the spec: \<open>db/queueQueries.js\<close> is missing. The oldest job of a list by
  \<open>created_at\<close>; among rows of equal \<open>created_at\<close> the earlier row is the older one.
\<close>

fun oldest :: "job list \<Rightarrow> job option" where
  "oldest [] = None"
| "oldest (j # js) =
     (case oldest js of
        None \<Rightarrow> Some j
      | Some k \<Rightarrow> if job_created_at j \<le> job_created_at k then Some j else Some k)"

text \<open>
  Modelled from the spec: \<open>getNextPendingJob\<close> of \<open>db/queueQueries.js\<close> is missing.
  The spec's \<open>next_pending\<close>: the oldest pending job by \<open>created_at\<close>, or nothing.
\<close>

definition getNextPendingJob :: "store \<Rightarrow> job option" where
  "getNextPendingJob s = oldest (filter (\<lambda>j. job_status j = ''pending'') s)"

text \<open>
  Modelled from the spec: \<open>updateJobStatus\<close> of \<open>db/queueQueries.js\<close> is missing. The
  spec's \<open>set_status(id, status, extras)\<close>: the row of that id gets the status and the
  extra columns handed over (the generation id, the error text).
\<close>

definition set_extras :: "extras \<Rightarrow> job \<Rightarrow> job" where
  "set_extras ex j =
     (case ex of
        NoExtras \<Rightarrow> j
      | GenerationId g \<Rightarrow> j\<lparr>job_generation_id := Some g\<rparr>
      | ErrorMessage m \<Rightarrow> j\<lparr>job_error := Some m\<rparr>)"

definition updateJobStatus :: "store \<Rightarrow> string \<Rightarrow> string \<Rightarrow> extras \<Rightarrow> store" where
  "updateJobStatus s i status ex =
     map (\<lambda>j. if job_id j = i then set_extras ex (j\<lparr>job_status := status\<rparr>) else j) s"

text \<open>
  Modelled from the spec: \<open>updateJobProgress\<close> of \<open>db/queueQueries.js\<close> is missing. The
  spec's \<open>set_progress(id, p)\<close>.
\<close>

definition updateJobProgress :: "store \<Rightarrow> string \<Rightarrow> rat \<Rightarrow> store" where
  "updateJobProgress s i p = map (\<lambda>j. if job_id j = i then j\<lparr>job_progress := p\<rparr> else j) s"

text \<open>The effect of one call on the queue table; the other tables are not modelled.\<close>

fun apply_call :: "store \<Rightarrow> call \<Rightarrow> store" where
  "apply_call s (UpdateJobStatus i status ex) = updateJobStatus s i status ex"
| "apply_call s (UpdateJobProgress i p) = updateJobProgress s i p"
| "apply_call s c = s"




subsection \<open>processQueue on the table\<close>

text \<open>
  The head of \<open>processQueue\<close>, up to \<open>currentJob = job\<close>: nothing is selected while
  \<open>isProcessing\<close> is set or when no job is pending.
\<close>

definition processQueue_select :: "processor \<Rightarrow> store \<Rightarrow> processor \<times> job option" where
  "processQueue_select pr s =
     (if isProcessing pr then (pr, None)
      else (case getNextPendingJob s of
              None \<Rightarrow> (pr, None)
            | Some job \<Rightarrow> (pr\<lparr>isProcessing := True, currentJob := Some job\<rparr>, Some job)))"

text \<open>
  One whole call of \<open>processQueue\<close>: the new module variables, the new table and the
  calls made. The \<open>finally\<close> block clears \<open>isProcessing\<close> and \<open>currentJob\<close>.
\<close>

definition processQueue :: "env \<Rightarrow> processor \<Rightarrow> store \<Rightarrow> processor \<times> store \<times> call list" where
  "processQueue env pr s =
     (case processQueue_select pr s of
        (pr1, None) \<Rightarrow> (pr1, s, [])
      | (pr1, Some job) \<Rightarrow>
          (pr1\<lparr>isProcessing := False, currentJob := None\<rparr>,
           foldl apply_call s (processQueue_run env job),
           processQueue_run env job))"






text \<open>The ids of the jobs a list of calls sets to \<open>processing\<close>, in order.\<close>

fun claimed :: "call list \<Rightarrow> string list" where
  "claimed [] = []"
| "claimed (UpdateJobStatus i status ex # cs) =
     (if status = ''processing'' then i # claimed cs else claimed cs)"
| "claimed (c # cs) = claimed cs"

text \<open>A call that writes to the queue table writes to the row of job \<open>i\<close>.\<close>

fun targets :: "string \<Rightarrow> call \<Rightarrow> bool" where
  "targets i (UpdateJobStatus i' status ex) = (i' = i)"
| "targets i (UpdateJobProgress i' p) = (i' = i)"
| "targets i c = True"


subsection \<open>processQueue with calls into the queue table that throw\<close>

text \<open>
  \<open>updateJobStatus\<close> and \<open>updateJobProgress\<close> write to the database and can throw like
  any other call. A \<open>faults\<close> value says which of these calls throw, and with which
  message; a call that throws changes nothing in the table.
\<close>

record faults =
  updateJobStatus_throws :: "string \<Rightarrow> string \<Rightarrow> extras \<Rightarrow> string option"
  updateJobProgress_throws :: "string \<Rightarrow> rat \<Rightarrow> string option"

fun throws :: "faults \<Rightarrow> call \<Rightarrow> string option" where
  "throws f (UpdateJobStatus i status ex) = updateJobStatus_throws f i status ex"
| "throws f (UpdateJobProgress i p) = updateJobProgress_throws f i p"
| "throws f c = None"

text \<open>
  A call into the queue table that throws ends the \<open>try\<close> block where it stands: the
  calls after it are not made. The handlers use no value that these calls return, so up
  to there they make the calls that they make when nothing throws. \<open>until_throw\<close> runs
  a list of calls up to the first one that throws and returns the calls made before it
  and its message.
\<close>

fun until_throw :: "faults \<Rightarrow> call list \<Rightarrow> call list \<times> string option" where
  "until_throw f [] = ([], None)"
| "until_throw f (c # cs) =
     (case throws f c of
        Some m \<Rightarrow> ([], Some m)
      | None \<Rightarrow> (case until_throw f cs of (made, r) \<Rightarrow> (c # made, r)))"

text \<open>
  The \<open>try\<close> block of \<open>processQueue\<close> (lines 62-87): status \<open>processing\<close>, the handler,
  status \<open>completed\<close>. The result is the calls that were made and returned, and either
  the message of the error that left the block or the generation id.
\<close>

definition try_block :: "faults \<Rightarrow> env \<Rightarrow> job \<Rightarrow> call list \<times> (string + string)" where
  "try_block f env job =
     (case process_job env job of
        (calls, r) \<Rightarrow>
          (case until_throw f (UpdateJobStatus (job_id job) ''processing'' NoExtras # calls) of
             (made, Some m) \<Rightarrow> (made, Inl m)
           | (made, None) \<Rightarrow>
               (case r of
                  Inl m \<Rightarrow> (made, Inl m)
                | Inr generationId \<Rightarrow>
                    (case throws f (UpdateJobStatus (job_id job) ''completed'' (GenerationId generationId)) of
                       Some m \<Rightarrow> (made, Inl m)
                     | None \<Rightarrow>
                         (made @ [UpdateJobStatus (job_id job) ''completed'' (GenerationId generationId)],
                          Inr generationId)))))"

text \<open>
  The \<open>catch\<close> block (lines 88-92) for an error with the given message: one unguarded
  \<open>updateJobStatus\<close> call. When that call throws, its error leaves \<open>processQueue\<close>.
\<close>

definition catch_block :: "faults \<Rightarrow> job \<Rightarrow> string \<Rightarrow> call list \<times> (string + unit)" where
  "catch_block f job message =
     (case throws f (UpdateJobStatus (job_id job) ''failed'' (ErrorMessage message)) of
        None \<Rightarrow> ([UpdateJobStatus (job_id job) ''failed'' (ErrorMessage message)], Inr ())
      | Some m \<Rightarrow> ([], Inl m))"

text \<open>
  One whole call of \<open>processQueue\<close> when calls into the queue table may throw: the new
  module variables, the new table, the calls that were made and returned, and whether
  the promise of \<open>processQueue\<close> is fulfilled (\<open>Inr\<close>) or rejected with a message
  (\<open>Inl\<close>). The \<open>finally\<close> block runs on every path.
\<close>

definition processQueue_faulty ::
  "faults \<Rightarrow> env \<Rightarrow> processor \<Rightarrow> store \<Rightarrow> processor \<times> store \<times> call list \<times> (string + unit)" where
  "processQueue_faulty f env pr s =
     (case processQueue_select pr s of
        (pr1, None) \<Rightarrow> (pr1, s, [], Inr ())
      | (pr1, Some job) \<Rightarrow>
          (case try_block f env job of
             (made, Inr generationId) \<Rightarrow>
               (pr1\<lparr>isProcessing := False, currentJob := None\<rparr>, foldl apply_call s made, made, Inr ())
           | (made, Inl message) \<Rightarrow>
               (case catch_block f job message of
                  (caught, outcome) \<Rightarrow>
                    (pr1\<lparr>isProcessing := False, currentJob := None\<rparr>,
                     foldl apply_call s (made @ caught), made @ caught, outcome))))"

subsection \<open>Enqueueing (server.js)\<close>

text \<open>
  The JSON body of a request to one of the three queue routes: the fields that the
  routes read, and \<open>seed\<close> and \<open>sample_steps\<close>, which the frontend puts into the body
  of a queued text-to-image request (\<open>GeneratePanel\<close>, \<open>useImageGeneration\<close>) and no
  route reads.
\<close>

record queue_body =
  b_model :: "string option"
  b_prompt :: "string option"
  b_negative_prompt :: "string option"
  b_size :: "string option"
  b_n :: "nat option"
  b_quality :: "string option"
  b_style :: "string option"
  b_source_image_id :: "string option"
  b_seed :: "string option"
  b_sample_steps :: "nat option"

text \<open>The object a route hands to \<open>addToQueue\<close>; a field the route leaves out is \<open>None\<close>.\<close>

record queue_fields =
  nf_type :: string
  nf_model :: string
  nf_prompt :: "string option"
  nf_negative_prompt :: "string option"
  nf_size :: "string option"
  nf_n :: "nat option"
  nf_quality :: "string option"
  nf_style :: "string option"
  nf_source_image_id :: "string option"

text \<open>\<open>req.body.model || 'sd-cpp-local'\<close>.\<close>

definition model_or_default :: "string option \<Rightarrow> string" where
  "model_or_default m =
     (case m of None \<Rightarrow> ''sd-cpp-local'' | Some x \<Rightarrow> if x = [] then ''sd-cpp-local'' else x)"

text \<open>The handlers of \<open>POST /api/queue/generate\<close>, \<open>/edit\<close> and \<open>/variation\<close>.\<close>

definition post_queue_generate :: "queue_body \<Rightarrow> queue_fields" where
  "post_queue_generate body =
     \<lparr>nf_type = ''generate'', nf_model = model_or_default (b_model body),
      nf_prompt = b_prompt body, nf_negative_prompt = b_negative_prompt body,
      nf_size = b_size body, nf_n = b_n body, nf_quality = b_quality body,
      nf_style = b_style body, nf_source_image_id = None\<rparr>"

definition post_queue_edit :: "queue_body \<Rightarrow> queue_fields" where
  "post_queue_edit body =
     \<lparr>nf_type = ''edit'', nf_model = model_or_default (b_model body),
      nf_prompt = b_prompt body, nf_negative_prompt = b_negative_prompt body,
      nf_size = b_size body, nf_n = b_n body, nf_quality = None,
      nf_style = None, nf_source_image_id = b_source_image_id body\<rparr>"

definition post_queue_variation :: "queue_body \<Rightarrow> queue_fields" where
  "post_queue_variation body =
     \<lparr>nf_type = ''variation'', nf_model = model_or_default (b_model body),
      nf_prompt = b_prompt body, nf_negative_prompt = b_negative_prompt body,
      nf_size = b_size body, nf_n = b_n body, nf_quality = None,
      nf_style = None, nf_source_image_id = b_source_image_id body\<rparr>"

text \<open>
  Modelled from the spec: \<open>addToQueue\<close> of \<open>db/queueQueries.js\<close> is missing. The spec's
  \<open>enqueue(fields)\<close>: the job gets the fields, an id, status \<open>pending\<close> and
  \<open>created_at = now\<close>; the id and the clock reading are arguments here. A column for
  which the fields hold nothing is empty.
\<close>

definition addToQueue :: "string \<Rightarrow> nat \<Rightarrow> queue_fields \<Rightarrow> job" where
  "addToQueue i now columns =
     \<lparr>job_id = i, job_type = nf_type columns, job_model = Some (nf_model columns),
      job_prompt = nf_prompt columns, job_negative_prompt = nf_negative_prompt columns,
      job_size = nf_size columns, job_seed = None, job_n = nf_n columns,
      job_quality = nf_quality columns, job_style = nf_style columns,
      job_source_image_id = nf_source_image_id columns, job_status = ''pending'',
      job_progress = 0, job_error = None, job_generation_id = None, job_created_at = now\<rparr>"

text \<open>The requests handed to the engine among a list of calls: \<open>params\<close> and mode.\<close>

fun engine_requests :: "call list \<Rightarrow> (params \<times> string) list" where
  "engine_requests [] = []"
| "engine_requests (GenerateImageDirect ps mode # cs) = (ps, mode) # engine_requests cs"
| "engine_requests (c # cs) = engine_requests cs"


section \<open>Concrete inputs\<close>

text \<open>Small inputs on which the results below are evaluated.\<close>

definition example_file :: "nat \<Rightarrow> nat \<Rightarrow> bool \<Rightarrow> file_progress" where
  "example_file bytes downloaded done =
     \<lparr>f_size = bytes, f_downloaded = downloaded, f_progress = 0, f_speed = None,
      f_eta = None, f_complete = done\<rparr>"

definition example_download :: "download_status \<Rightarrow> (string \<times> file_progress) list \<Rightarrow> download_job" where
  "example_download status files =
     \<lparr>j_id = ''d1'', j_repo = ''org/model'', j_status = status, j_files = files,
      j_progress = 0, j_bytesDownloaded = 0, j_totalBytes = 0, j_speed = 0, j_eta = 0,
      j_startTime = 0, j_completedAt = None, j_pausedAt = None, j_error = None,
      j_abortController = Some False\<rparr>"

definition example_world :: "download_job \<Rightarrow> (string \<rightharpoonup> string) \<Rightarrow> world" where
  "example_world job files =
     \<lparr>downloadJobs = [''d1'' \<mapsto> job], fs = files, requests = [], progress_events = [],
      file_completions = []\<rparr>"

definition example_job :: "string \<Rightarrow> string \<Rightarrow> string \<Rightarrow> nat \<Rightarrow> job" where
  "example_job i ty status created =
     \<lparr>job_id = i, job_type = ty, job_model = Some ''sd-cpp-local'', job_prompt = Some ''cat'',
      job_negative_prompt = None, job_size = Some ''512x512'', job_seed = None, job_n = Some 1,
      job_quality = None, job_style = None, job_source_image_id = None, job_status = status,
      job_progress = 0, job_error = None, job_generation_id = None, job_created_at = created\<rparr>"

text \<open>An engine that answers every request with one image, and one that is down.\<close>

definition example_env :: env where
  "example_env =
     \<lparr>generateImageDirect = (\<lambda>ps mode. Inr \<lparr>data = Some [\<lparr>b64_json = Some ''aGk='', revised_prompt = None\<rparr>]\<rparr>),
      createGeneration = (\<lambda>g. None), createGeneratedImage = (\<lambda>i. None),
      randomUUID = (\<lambda>k. ''uuid-'' @ digits k), parseInt = (\<lambda>s. None)\<rparr>"

definition failing_env :: env where
  "failing_env = example_env\<lparr>generateImageDirect := (\<lambda>ps mode. Inl ''connect ECONNREFUSED'')\<rparr>"


text \<open>
  A call of \<open>downloadFile\<close> that resumes \<open>/m/a.bin\<close>, of which the first four of eight
  bytes are on disk; the registry answers 206 for the other four, or 416.
\<close>

definition partial_response :: response where
  "partial_response =
     \<lparr>r_status = 206, r_content_length = Some 4, r_content_range = Some 8, r_body = True\<rparr>"


definition fetch_partial :: "request \<Rightarrow> string + response" where
  "fetch_partial rq = Inr partial_response"


definition resuming_world :: world where
  "resuming_world =
     example_world (example_download DOWNLOADING [(''/m/a.bin'', example_file 0 0 False)])
       [''/m/a.bin'' \<mapsto> ''abcd'']"


text \<open>A paused and a completed download of two files, the first one finished.\<close>

definition two_files :: "(string \<times> file_progress) list" where
  "two_files = [(''/m/a.bin'', example_file 4 4 True), (''/m/b.bin'', example_file 4 2 False)]"

definition two_files_on_disk :: "string \<rightharpoonup> string" where
  "two_files_on_disk = [''/m/a.bin'' \<mapsto> ''aaaa'', ''/m/b.bin'' \<mapsto> ''bb'']"

definition never_fails :: "string \<Rightarrow> bool" where
  "never_fails path = False"

text \<open>
  Registry answers: metadata that lists one file, metadata without a \<open>siblings\<close> field,
  and 404.
\<close>

definition fetch_siblings_list :: "request \<Rightarrow> string + api_response" where
  "fetch_siblings_list rq =
     Inr \<lparr>a_status = 200, a_statusText = ''OK'',
          a_json = Inr (JObj [(''id'', JStr ''org/model''),
                              (''siblings'', JArr [JObj [(''rfilename'', JStr ''a.bin'')]])])\<rparr>"

definition fetch_no_siblings :: "request \<Rightarrow> string + api_response" where
  "fetch_no_siblings rq =
     Inr \<lparr>a_status = 200, a_statusText = ''OK'', a_json = Inr (JObj [(''id'', JStr ''org/model'')])\<rparr>"

definition fetch_not_found :: "request \<Rightarrow> string + api_response" where
  "fetch_not_found rq =
     Inr \<lparr>a_status = 404, a_statusText = ''Not Found'', a_json = Inr JNull\<rparr>"








text \<open>
  A database in which no call throws, one that is locked whenever a progress value is
  written, and one that is locked whenever status \<open>failed\<close> is written.
\<close>

definition no_faults :: faults where
  "no_faults = \<lparr>updateJobStatus_throws = (\<lambda>i status ex. None), updateJobProgress_throws = (\<lambda>i p. None)\<rparr>"



text \<open>
  The body of a queued request for nine sample steps (the request of the first test of
  \<open>tests/steps-parameter.test.js\<close>), and the same request without \<open>sample_steps\<close>.
\<close>

definition steps_request :: "nat option \<Rightarrow> queue_body" where
  "steps_request steps =
     \<lparr>b_model = Some ''z-image-turbo'', b_prompt = Some ''test prompt'', b_negative_prompt = None,
      b_size = None, b_n = None, b_quality = None, b_style = None, b_source_image_id = None,
      b_seed = None, b_sample_steps = steps\<rparr>"


section \<open>Results: model downloader\<close>

subsection \<open>Helper facts\<close>





lemma unlink_partial_result: "unlink_partial uf files m p = m p \<or> unlink_partial uf files m p = None"
proof (induction files arbitrary: m)
  case Nil
  then show ?case by simp
next
  case (Cons a files)
  obtain path fp where a: "a = (path, fp)" by (cases a)
  define m' where "m' = (if \<not> f_complete fp \<and> m path \<noteq> None
        then (if uf path then m else m(path := None)) else m)"
  have "m' p = m p \<or> m' p = None" by (simp add: m'_def)
  moreover have "unlink_partial uf (a # files) m p = unlink_partial uf files m' p"
    by (simp add: a m'_def)
  ultimately show ?case using Cons.IH[of m'] by auto
qed

lemma unlink_partial_only_incomplete:
  "unlink_partial uf files m p \<noteq> m p \<Longrightarrow> \<exists>file. (p, file) \<in> set files \<and> \<not> f_complete file"
proof (induction files arbitrary: m)
  case Nil
  then show ?case by simp
next
  case (Cons a files)
  obtain path fp where a: "a = (path, fp)" by (cases a)
  show ?case
  proof (cases "path = p \<and> \<not> f_complete fp")
    case True
    then show ?thesis using a by auto
  next
    case False
    then have "(if \<not> f_complete fp \<and> m path \<noteq> None
        then (if uf path then m else m(path := None)) else m) p = m p"
      by auto
    with Cons.prems a have "unlink_partial uf files (if \<not> f_complete fp \<and> m path \<noteq> None
        then (if uf path then m else m(path := None)) else m) p \<noteq> (if \<not> f_complete fp \<and> m path \<noteq> None
        then (if uf path then m else m(path := None)) else m) p"
      by simp
    from Cons.IH[OF this] show ?thesis by auto
  qed
qed


subsection \<open>Aggregate accounting\<close>




subsection \<open>Resuming a file\<close>

text \<open>
  Claim C5 fails on the code, by a defect of the code. For every call of \<open>downloadFile\<close>
  on an existing job, not cancelled, whose destination file exists with \<open>s > 0\<close> bytes and
  whose record is not marked complete: the GET carries \<open>Range: bytes=s-\<close>, as claimed; but
  on every 2xx or 206 answer the call is then rejected with the \<open>TypeError\<close> of
  \<open>Readable.fromWeb\<close> (of \<open>getReader\<close> when the answer has no body), and nothing but the
  list of requests has changed: the file keeps its \<open>s\<close> bytes, the body is not appended
  to it.
\<close>

theorem downloadFile_rejects_before_streaming:
  assumes "downloadJobs w jobId = Some job" and "signal \<noteq> Some True"
    and "fs w dest = Some content" and "content \<noteq> []"
    and "\<not> marked_complete job dest"
    and "fetch (request_options url (length content)) = Inr response"
    and "ok (r_status response) \<or> r_status response = 206"
  shows "downloadFile fetch url dest jobId i n signal w =
           (Inl (if r_body response then fromWeb_TypeError else getReader_TypeError),
            w\<lparr>requests := requests w @
                 [\<lparr>q_url = url, q_method = ''GET'',
                   q_headers = [(''Range'', ''bytes='' @ digits (length content) @ ''-'')]\<rparr>]\<rparr>)"
proof -
  have n416: "r_status response \<noteq> 416" using assms(7) by (auto simp: ok_def)
  have go: "\<not> (\<not> ok (r_status response) \<and> r_status response \<noteq> 206)" using assms(7) by auto
  have ro: "request_options url (length content) =
      \<lparr>q_url = url, q_method = ''GET'',
       q_headers = [(''Range'', ''bytes='' @ digits (length content) @ ''-'')]\<rparr>"
    using assms(4) by (simp add: request_options_def)
  show ?thesis
    using assms(1,2,3,4,5) assms(6)[unfolded ro] n416 go
    by (auto simp add: downloadFile_def Let_def ro)
qed

text \<open>
  The failing input of C5: four of the eight bytes of \<open>/m/a.bin\<close> are on disk and the
  registry answers the range request with 206. The call is rejected and the file still
  holds its four bytes.
\<close>

theorem downloadFile_rejects_before_streaming_witness:
  "downloadJobs resuming_world ''d1'' =
       Some (example_download DOWNLOADING [(''/m/a.bin'', example_file 0 0 False)])
   \<and> fs resuming_world ''/m/a.bin'' = Some ''abcd''
   \<and> \<not> marked_complete (example_download DOWNLOADING [(''/m/a.bin'', example_file 0 0 False)]) ''/m/a.bin''
   \<and> fetch_partial (request_options ''u'' (length ''abcd'')) = Inr partial_response
   \<and> r_status partial_response = 206 \<and> r_body partial_response
   \<and> downloadFile fetch_partial ''u'' ''/m/a.bin'' ''d1'' 0 1 (Some False) resuming_world =
       (Inl fromWeb_TypeError,
        resuming_world\<lparr>requests :=
          [\<lparr>q_url = ''u'', q_method = ''GET'', q_headers = [(''Range'', ''bytes=4-'')]\<rparr>]\<rparr>)
   \<and> fs (snd (downloadFile fetch_partial ''u'' ''/m/a.bin'' ''d1'' 0 1 (Some False) resuming_world))
        ''/m/a.bin'' = Some ''abcd''"
proof -
  let ?job = "example_download DOWNLOADING [(''/m/a.bin'', example_file 0 0 False)]"
  have h1: "downloadJobs resuming_world ''d1'' = Some ?job"
    by (simp add: resuming_world_def example_world_def)
  have h2: "Some False \<noteq> Some True" by simp
  have h3: "fs resuming_world ''/m/a.bin'' = Some ''abcd''"
    by (simp add: resuming_world_def example_world_def)
  have h4: "''abcd'' \<noteq> []" by simp
  have h5: "\<not> marked_complete ?job ''/m/a.bin''"
    by (simp add: marked_complete_def example_download_def example_file_def)
  have h6: "fetch_partial (request_options ''u'' (length ''abcd'')) = Inr partial_response"
    by (simp add: fetch_partial_def)
  have bd: "r_body partial_response" by (simp add: partial_response_def)
  have st: "r_status partial_response = 206" by (simp add: partial_response_def)
  then have h7: "ok (r_status partial_response) \<or> r_status partial_response = 206" by simp
  have r: "requests resuming_world = []"
    by (simp add: resuming_world_def example_world_def)
  have d4: "digits (length ''abcd'') = ''4''" by code_simp
  from downloadFile_rejects_before_streaming[where fetch = fetch_partial and url = "''u''"
      and content = "''abcd''" and response = partial_response and i = 0 and n = 1,
      OF h1 h2 h3 h4 h5 h6 h7]
  have a: "downloadFile fetch_partial ''u'' ''/m/a.bin'' ''d1'' 0 1 (Some False) resuming_world =
       (Inl fromWeb_TypeError,
        resuming_world\<lparr>requests :=
          [\<lparr>q_url = ''u'', q_method = ''GET'', q_headers = [(''Range'', ''bytes=4-'')]\<rparr>]\<rparr>)"
    unfolding d4 r using bd by simp
  then have b: "fs (snd (downloadFile fetch_partial ''u'' ''/m/a.bin'' ''d1'' 0 1 (Some False) resuming_world))
        ''/m/a.bin'' = Some ''abcd''"
    using h3 by simp
  from h1 h3 h5 h6 st bd a b show ?thesis by blast
qed

subsection \<open>Resume and cancel\<close>

text \<open>
  Claim C6. For every paused download job: if at least one file is not marked complete,
  \<open>resumeDownload\<close> throws, and no file on disk changes, no request is sent and no
  per-file record changes; if every file is marked complete, it returns after setting
  the status to completed, changing nothing else.
\<close>

theorem resumeDownload_throws_unless_all_complete:
  assumes "downloadJobs w jobId = Some job" and "j_status job = PAUSED"
  shows "((\<exists>file \<in> snd ` set (j_files job). \<not> f_complete file) \<longrightarrow>
            (\<exists>msg w'. resumeDownload jobId w = (Inl msg, w') \<and> fs w' = fs w
                \<and> requests w' = requests w
                \<and> map_option j_files (downloadJobs w' jobId) = Some (j_files job)))
       \<and> ((\<forall>file \<in> snd ` set (j_files job). f_complete file) \<longrightarrow>
            resumeDownload jobId w =
              (Inr (), w\<lparr>downloadJobs := (downloadJobs w)(jobId \<mapsto> job\<lparr>j_status := COMPLETED\<rparr>)\<rparr>))"
proof -
  have "filesToDownload job = [] \<longleftrightarrow> (\<forall>file \<in> snd ` set (j_files job). f_complete file)"
    by (auto simp: filesToDownload_def filter_empty_conv)
  then show ?thesis
    using assms by (auto simp: resumeDownload_def)
qed

text \<open>
  C6 at a paused job with one finished and one unfinished file, and at a paused job whose
  only file is finished.
\<close>

theorem resumeDownload_throws_unless_all_complete_witness:
  "downloadJobs (example_world (example_download PAUSED two_files) two_files_on_disk) ''d1'' =
       Some (example_download PAUSED two_files)
   \<and> j_status (example_download PAUSED two_files) = PAUSED
   \<and> (\<exists>file \<in> snd ` set (j_files (example_download PAUSED two_files)). \<not> f_complete file)
   \<and> (\<exists>msg w'. resumeDownload ''d1'' (example_world (example_download PAUSED two_files) two_files_on_disk) = (Inl msg, w')
         \<and> fs w' = two_files_on_disk \<and> requests w' = [])
   \<and> resumeDownload ''d1'' (example_world (example_download PAUSED [(''/m/a.bin'', example_file 4 4 True)]) two_files_on_disk) =
       (Inr (), example_world (example_download COMPLETED [(''/m/a.bin'', example_file 4 4 True)]) two_files_on_disk)"
proof -
  let ?j = "example_download PAUSED two_files"
  let ?w = "example_world ?j two_files_on_disk"
  let ?j1 = "example_download PAUSED [(''/m/a.bin'', example_file 4 4 True)]"
  let ?w1 = "example_world ?j1 two_files_on_disk"
  have h1: "downloadJobs ?w ''d1'' = Some ?j" by (simp add: example_world_def)
  have h2: "j_status ?j = PAUSED" by (simp add: example_download_def)
  have k1: "downloadJobs ?w1 ''d1'' = Some ?j1" by (simp add: example_world_def)
  have k2: "j_status ?j1 = PAUSED" by (simp add: example_download_def)
  have inc: "\<exists>file \<in> snd ` set (j_files ?j). \<not> f_complete file"
    by (simp add: example_download_def two_files_def example_file_def)
  have all: "\<forall>file \<in> snd ` set (j_files ?j1). f_complete file"
    by (simp add: example_download_def example_file_def)
  from resumeDownload_throws_unless_all_complete[OF h1 h2] inc
  obtain msg w' where "resumeDownload ''d1'' ?w = (Inl msg, w')" "fs w' = fs ?w" "requests w' = requests ?w"
    by blast
  then have a: "\<exists>msg w'. resumeDownload ''d1'' ?w = (Inl msg, w') \<and> fs w' = two_files_on_disk \<and> requests w' = []"
    by (auto simp: example_world_def)
  from resumeDownload_throws_unless_all_complete[OF k1 k2] all
  have "resumeDownload ''d1'' ?w1 =
      (Inr (), ?w1\<lparr>downloadJobs := (downloadJobs ?w1)(''d1'' \<mapsto> ?j1\<lparr>j_status := COMPLETED\<rparr>)\<rparr>)"
    by blast
  then have b: "resumeDownload ''d1'' ?w1 =
      (Inr (), example_world (example_download COMPLETED [(''/m/a.bin'', example_file 4 4 True)]) two_files_on_disk)"
    by (simp add: example_world_def example_download_def)
  show ?thesis using h1 h2 inc a b by blast
qed

text \<open>
  Claim C10. For every download job (\<open>job.files\<close> is a map, so its keys are distinct):
  \<open>cancelDownload\<close> on a completed job throws and changes neither the job nor any file;
  on any other job it returns, every file it changes on disk is deleted and has a record
  that is not marked complete, and every file whose record is marked complete is left as
  it was.
\<close>

theorem cancelDownload_keeps_complete_files:
  assumes "downloadJobs w jobId = Some job" and "distinct (map fst (j_files job))"
  shows "(j_status job = COMPLETED \<longrightarrow>
            cancelDownload unlink_fails jobId w = (Inl ''Cannot cancel completed download'', w))
       \<and> (j_status job \<noteq> COMPLETED \<longrightarrow>
            (\<exists>w'. cancelDownload unlink_fails jobId w = (Inr (), w')
               \<and> (\<forall>path. fs w' path \<noteq> fs w path \<longrightarrow>
                     fs w' path = None
                     \<and> (\<exists>file. map_of (j_files job) path = Some file \<and> \<not> f_complete file))
               \<and> (\<forall>path file. map_of (j_files job) path = Some file \<and> f_complete file \<longrightarrow>
                     fs w' path = fs w path)))"
proof (intro conjI impI)
  assume "j_status job = COMPLETED"
  then show "cancelDownload unlink_fails jobId w = (Inl ''Cannot cancel completed download'', w)"
    using assms(1) by (simp add: cancelDownload_def)
next
  assume nc: "j_status job \<noteq> COMPLETED"
  define w' where "w' = w\<lparr>downloadJobs := (downloadJobs w)(jobId \<mapsto>
                  job\<lparr>j_abortController := abort (j_abortController job), j_status := CANCELLED\<rparr>),
               fs := unlink_partial unlink_fails (j_files job) (fs w)\<rparr>"
  have r: "cancelDownload unlink_fails jobId w = (Inr (), w')"
    using assms(1) nc by (simp add: cancelDownload_def w'_def)
  have fs': "fs w' = unlink_partial unlink_fails (j_files job) (fs w)"
    by (simp add: w'_def)
  have only: "\<And>path. fs w' path \<noteq> fs w path \<Longrightarrow>
       fs w' path = None \<and> (\<exists>file. map_of (j_files job) path = Some file \<and> \<not> f_complete file)"
  proof -
    fix path assume ch: "fs w' path \<noteq> fs w path"
    then have "fs w' path = None"
      using unlink_partial_result[of unlink_fails "j_files job" "fs w" path] by (simp add: fs')
    moreover from ch obtain fp where "(path, fp) \<in> set (j_files job)" "\<not> f_complete fp"
      using unlink_partial_only_incomplete[of unlink_fails "j_files job" "fs w" path]
      by (auto simp: fs')
    then have "map_of (j_files job) path = Some fp \<and> \<not> f_complete fp"
      using assms(2) by simp
    ultimately show "fs w' path = None \<and> (\<exists>file. map_of (j_files job) path = Some file \<and> \<not> f_complete file)"
      by blast
  qed
  have kept: "\<And>path file. map_of (j_files job) path = Some file \<and> f_complete file \<Longrightarrow> fs w' path = fs w path"
    using only by fastforce
  show "\<exists>w'. cancelDownload unlink_fails jobId w = (Inr (), w')
               \<and> (\<forall>path. fs w' path \<noteq> fs w path \<longrightarrow>
                     fs w' path = None
                     \<and> (\<exists>file. map_of (j_files job) path = Some file \<and> \<not> f_complete file))
               \<and> (\<forall>path file. map_of (j_files job) path = Some file \<and> f_complete file \<longrightarrow>
                     fs w' path = fs w path)"
    using r only kept by blast
qed

text \<open>
  C10 at a running download with one finished and one partial file on disk, and at the
  same download once completed.
\<close>

theorem cancelDownload_keeps_complete_files_witness:
  "downloadJobs (example_world (example_download DOWNLOADING two_files) two_files_on_disk) ''d1'' =
       Some (example_download DOWNLOADING two_files)
   \<and> distinct (map fst (j_files (example_download DOWNLOADING two_files)))
   \<and> (\<exists>w'. cancelDownload never_fails ''d1''
              (example_world (example_download DOWNLOADING two_files) two_files_on_disk) = (Inr (), w')
         \<and> fs w' ''/m/a.bin'' = Some ''aaaa'' \<and> fs w' ''/m/b.bin'' = None)
   \<and> cancelDownload never_fails ''d1''
         (example_world (example_download COMPLETED two_files) two_files_on_disk) =
       (Inl ''Cannot cancel completed download'',
        example_world (example_download COMPLETED two_files) two_files_on_disk)"
proof -
  let ?j = "example_download DOWNLOADING two_files"
  let ?w = "example_world ?j two_files_on_disk"
  let ?jc = "example_download COMPLETED two_files"
  let ?wc = "example_world ?jc two_files_on_disk"
  have h1: "downloadJobs ?w ''d1'' = Some ?j" by (simp add: example_world_def)
  have h2: "distinct (map fst (j_files ?j))" by (simp add: example_download_def two_files_def)
  have k1: "downloadJobs ?wc ''d1'' = Some ?jc" by (simp add: example_world_def)
  have k2: "distinct (map fst (j_files ?jc))" by (simp add: example_download_def two_files_def)
  have nc: "j_status ?j \<noteq> COMPLETED" by (simp add: example_download_def)
  have c: "j_status ?jc = COMPLETED" by (simp add: example_download_def)
  from cancelDownload_keeps_complete_files[OF h1 h2, of never_fails] nc
  obtain w' where r: "cancelDownload never_fails ''d1'' ?w = (Inr (), w')"
    and kept: "\<forall>path fp. map_of (j_files ?j) path = Some fp \<and> f_complete fp \<longrightarrow> fs w' path = fs ?w path"
    by blast
  have "map_of (j_files ?j) ''/m/a.bin'' = Some (example_file 4 4 True) \<and> f_complete (example_file 4 4 True)"
    by (simp add: example_download_def two_files_def example_file_def)
  with kept have a: "fs w' ''/m/a.bin'' = Some ''aaaa''"
    by (fastforce simp: example_world_def two_files_on_disk_def)
  have b: "fs w' ''/m/b.bin'' = None"
    using r by (auto simp: cancelDownload_def example_world_def example_download_def two_files_def
          example_file_def two_files_on_disk_def never_fails_def)
  have d: "cancelDownload never_fails ''d1'' ?wc = (Inl ''Cannot cancel completed download'', ?wc)"
    using cancelDownload_keeps_complete_files[OF k1 k2, of never_fails] c by blast
  show ?thesis using h1 h2 r a b d by blast
qed

subsection \<open>Registry metadata\<close>

text \<open>
  Claim C9. For every repository string the two functions hand the same request (URL
  and headers) to \<open>fetch\<close>. The registry's metadata is an object whose \<open>siblings\<close> field,
  when it is there, is a list: whenever \<open>getHuggingFaceModelInfo\<close> returns such an
  object, \<open>getHuggingFaceModelFiles\<close> returns exactly its \<open>siblings\<close> list, and the empty
  list when the field is absent. Whenever the former throws, so does the latter.
\<close>

theorem registry_info_and_files:
  "getHuggingFaceModelInfo_request repo = getHuggingFaceModelFiles_request repo
   \<and> (\<forall>members. getHuggingFaceModelInfo fetch repo = Inr (JObj members) \<longrightarrow>
         (\<forall>siblings. map_of members ''siblings'' = Some (JArr siblings) \<longrightarrow>
              getHuggingFaceModelFiles fetch repo = Inr (JArr siblings))
       \<and> (map_of members ''siblings'' = None \<longrightarrow>
              getHuggingFaceModelFiles fetch repo = Inr (JArr [])))
   \<and> (\<forall>err. getHuggingFaceModelInfo fetch repo = Inl err \<longrightarrow>
         (\<exists>err'. getHuggingFaceModelFiles fetch repo = Inl err'))"
proof -
  have rq: "getHuggingFaceModelInfo_request repo = getHuggingFaceModelFiles_request repo"
    by (simp add: getHuggingFaceModelInfo_request_def getHuggingFaceModelFiles_request_def
          HF_API_MODELS_def)
  show ?thesis
    by (auto simp: rq getHuggingFaceModelInfo_def getHuggingFaceModelFiles_def
             split: sum.splits option.splits if_splits)
qed

text \<open>
  C9 at a registry answer that lists one file, at one without a \<open>siblings\<close> field and at
  a 404 answer.
\<close>

theorem registry_info_and_files_witness:
  "getHuggingFaceModelInfo fetch_siblings_list ''org/model'' =
       Inr (JObj [(''id'', JStr ''org/model''),
                  (''siblings'', JArr [JObj [(''rfilename'', JStr ''a.bin'')]])])
   \<and> getHuggingFaceModelFiles fetch_siblings_list ''org/model'' =
       Inr (JArr [JObj [(''rfilename'', JStr ''a.bin'')]])
   \<and> getHuggingFaceModelInfo fetch_no_siblings ''org/model'' = Inr (JObj [(''id'', JStr ''org/model'')])
   \<and> getHuggingFaceModelFiles fetch_no_siblings ''org/model'' = Inr (JArr [])
   \<and> getHuggingFaceModelInfo fetch_not_found ''org/model'' =
       Inl ''Model repository not found: org/model''
   \<and> (\<exists>err'. getHuggingFaceModelFiles fetch_not_found ''org/model'' = Inl err')"
proof -
  have n: "getHuggingFaceModelInfo fetch_not_found ''org/model'' =
       Inl ''Model repository not found: org/model''"
    by (simp add: getHuggingFaceModelInfo_def fetch_not_found_def ok_def)
  from registry_info_and_files[of "''org/model''" fetch_not_found] n
  have m: "\<exists>err'. getHuggingFaceModelFiles fetch_not_found ''org/model'' = Inl err'"
    by blast
  have i: "getHuggingFaceModelInfo fetch_siblings_list ''org/model'' =
       Inr (JObj [(''id'', JStr ''org/model''),
                  (''siblings'', JArr [JObj [(''rfilename'', JStr ''a.bin'')]])])"
    by (simp add: getHuggingFaceModelInfo_def fetch_siblings_list_def ok_def)
  have il: "map_of [(''id'', JStr ''org/model''),
                  (''siblings'', JArr [JObj [(''rfilename'', JStr ''a.bin'')]])] ''siblings'' =
      Some (JArr [JObj [(''rfilename'', JStr ''a.bin'')]])"
    by simp
  from registry_info_and_files[of "''org/model''" fetch_siblings_list] i il
  have l: "getHuggingFaceModelFiles fetch_siblings_list ''org/model'' =
       Inr (JArr [JObj [(''rfilename'', JStr ''a.bin'')]])"
    by blast
  have a: "getHuggingFaceModelInfo fetch_no_siblings ''org/model'' = Inr (JObj [(''id'', JStr ''org/model'')])"
    by (simp add: getHuggingFaceModelInfo_def fetch_no_siblings_def ok_def)
  have al: "map_of [(''id'', JStr ''org/model'')] ''siblings'' = None"
    by simp
  from registry_info_and_files[of "''org/model''" fetch_no_siblings] a al
  have e: "getHuggingFaceModelFiles fetch_no_siblings ''org/model'' = Inr (JArr [])"
    by blast
  from i l a e n m show ?thesis by blast
qed


section \<open>Results: queue processor\<close>

subsection \<open>Helper facts\<close>

lemma progress_values_append: "progress_values (xs @ ys) = progress_values xs @ progress_values ys"
  by (induction xs rule: progress_values.induct) simp_all

lemma engine_modes_append: "engine_modes (xs @ ys) = engine_modes xs @ engine_modes ys"
  by (induction xs rule: engine_modes.induct) simp_all

lemma claimed_append: "claimed (xs @ ys) = claimed xs @ claimed ys"
  by (induction xs rule: claimed.induct) simp_all


lemma save_images_calls:
  "save_images env g imgs k = (calls, r) \<Longrightarrow>
   progress_values calls = [] \<and> engine_modes calls = [] \<and> claimed calls = []
   \<and> (\<forall>c \<in> set calls. targets i c) \<and> (\<forall>gen. CreateGeneration gen \<notin> set calls)"
proof (induction imgs arbitrary: k calls r)
  case Nil
  then show ?case by simp
next
  case (Cons imageData rest)
  show ?case
  proof (cases "b64_json imageData")
    case None
    with Cons.prems show ?thesis by simp
  next
    case (Some b64)
    define image where "image = \<lparr>i_id = randomUUID env (Suc k), i_generation_id = g,
                       i_index_in_batch = k, i_image_data = b64, i_mime_type = ''image/png'',
                       i_revised_prompt = revised_prompt imageData\<rparr>"
    show ?thesis
    proof (cases "createGeneratedImage env image")
      case (Some err)
      with Cons.prems \<open>b64_json imageData = Some b64\<close> show ?thesis
        by (auto simp: image_def Let_def)
    next
      case None
      obtain calls' r' where rec: "save_images env g rest (Suc k) = (calls', r')"
        by (cases "save_images env g rest (Suc k)")
      with Cons.prems \<open>b64_json imageData = Some b64\<close> None
      have "calls = CreateGeneratedImage image # calls'"
        by (auto simp: image_def Let_def)
      with Cons.IH[OF rec] show ?thesis by simp
    qed
  qed
qed

text \<open>The shapes of a handler's calls after its first progress calls.\<close>

lemma generate_and_store_calls:
  assumes "generate_and_store env job ps mode gen = (calls, r)"
  shows "engine_modes calls = [mode] \<and> claimed calls = []
      \<and> (\<forall>c \<in> set calls. targets (job_id job) c)
      \<and> (\<forall>g. CreateGeneration g \<in> set calls \<longrightarrow> g = gen)
      \<and> (progress_values calls = [] \<or> progress_values calls = [7/10]
         \<or> progress_values calls = [7/10, 9/10])
      \<and> (\<forall>g. r = Inr g \<longrightarrow> progress_values calls = [7/10, 9/10])"
proof (cases "generateImageDirect env ps mode")
  case (Inl err)
  with assms show ?thesis by (auto simp: generate_and_store_def)
next
  case (Inr response)
  show ?thesis
  proof (cases "createGeneration env gen")
    case (Some err)
    with assms Inr show ?thesis by (auto simp: generate_and_store_def)
  next
    case None
    obtain ics ir where si: "save_images env (g_id gen)
        (case data response of None \<Rightarrow> [] | Some imgs \<Rightarrow> imgs) 0 = (ics, ir)"
      by (cases "save_images env (g_id gen) (case data response of None \<Rightarrow> [] | Some imgs \<Rightarrow> imgs) 0")
    note s = save_images_calls[OF si, of "job_id job"]
    have "calls = [GenerateImageDirect ps mode, UpdateJobProgress (job_id job) (7/10),
                      CreateGeneration gen, UpdateJobProgress (job_id job) (9/10)] @ ics"
      and "r = (case ir of Some err \<Rightarrow> Inl err | None \<Rightarrow> Inr (g_id gen))"
      using assms Inr None si by (auto simp: generate_and_store_def)
    with s show ?thesis
      by (auto simp: progress_values_append engine_modes_append claimed_append)
  qed
qed

text \<open>
  A job of one of the three known types runs the shared part in the mode of its type,
  after one or two progress calls; any other type runs nothing.
\<close>

lemma process_job_shape:
  assumes "job_type job \<in> {''generate'', ''edit'', ''variation''}"
  shows "\<exists>pre ps gen.
           process_job env job =
             (pre @ fst (generate_and_store env job ps (job_type job) gen),
              snd (generate_and_store env job ps (job_type job) gen))
         \<and> g_type gen = job_type job
         \<and> (pre = [UpdateJobProgress (job_id job) (1/10), UpdateJobProgress (job_id job) (3/10)]
            \<or> pre = [UpdateJobProgress (job_id job) (3/10)])
         \<and> (job_type job = ''generate'' \<longrightarrow>
              pre = [UpdateJobProgress (job_id job) (1/10), UpdateJobProgress (job_id job) (3/10)])"
proof -
  let ?p1 = "UpdateJobProgress (job_id job) (1/10)"
  let ?p3 = "UpdateJobProgress (job_id job) (3/10)"
  consider "job_type job = ''generate''" | "job_type job = ''edit''" | "job_type job = ''variation''"
    using assms by auto
  then show ?thesis
  proof cases
    case 1
    show ?thesis
      by (rule exI[of _ "[?p1, ?p3]"],
          rule exI[of _ "\<lparr>p_prompt = job_prompt job, p_negative_prompt = job_negative_prompt job,
                p_size = job_size job, p_seed = seed_param env job, p_n = job_n job,
                p_quality = job_quality job, p_style = job_style job\<rparr>"],
          rule exI[of _ "\<lparr>g_id = randomUUID env 0, g_type = ''generate'', g_model = job_model job,
                 g_prompt = job_prompt job, g_negative_prompt = job_negative_prompt job,
                 g_size = job_size job, g_seed = job_seed job, g_n = job_n job,
                 g_quality = job_quality job, g_style = job_style job,
                 g_source_image_id = None\<rparr>"])
         (simp add: 1 process_job_def processGenerateJob_def Let_def case_prod_beta)
  next
    case 2
    show ?thesis
      by (rule exI[of _ "[?p3]"],
          rule exI[of _ "\<lparr>p_prompt = job_prompt job, p_negative_prompt = job_negative_prompt job,
                p_size = job_size job, p_seed = seed_param env job, p_n = Some (n_or_1 job),
                p_quality = None, p_style = None\<rparr>"],
          rule exI[of _ "\<lparr>g_id = randomUUID env 0, g_type = ''edit'', g_model = job_model job,
                 g_prompt = job_prompt job, g_negative_prompt = job_negative_prompt job,
                 g_size = job_size job, g_seed = job_seed job, g_n = Some (n_or_1 job),
                 g_quality = None, g_style = None,
                 g_source_image_id = job_source_image_id job\<rparr>"])
         (simp add: 2 process_job_def processEditJob_def Let_def case_prod_beta)
  next
    case 3
    show ?thesis
      by (rule exI[of _ "[?p3]"],
          rule exI[of _ "\<lparr>p_prompt = job_prompt job, p_negative_prompt = job_negative_prompt job,
                p_size = job_size job, p_seed = seed_param env job, p_n = Some (n_or_1 job),
                p_quality = None, p_style = None\<rparr>"],
          rule exI[of _ "\<lparr>g_id = randomUUID env 0, g_type = ''variation'', g_model = job_model job,
                 g_prompt = job_prompt job, g_negative_prompt = job_negative_prompt job,
                 g_size = job_size job, g_seed = job_seed job, g_n = Some (n_or_1 job),
                 g_quality = None, g_style = None,
                 g_source_image_id = job_source_image_id job\<rparr>"])
         (simp add: 3 process_job_def processVariationJob_def Let_def case_prod_beta)
  qed
qed

lemma process_job_unknown:
  "job_type job \<notin> {''generate'', ''edit'', ''variation''} \<Longrightarrow>
   process_job env job = ([], Inl (''Unknown job type: '' @ job_type job))"
  by (simp add: process_job_def)


lemma processQueue_run_last:
  "last (processQueue_run env job) =
     (case snd (process_job env job) of
        Inr generationId \<Rightarrow> UpdateJobStatus (job_id job) ''completed'' (GenerationId generationId)
      | Inl message \<Rightarrow> UpdateJobStatus (job_id job) ''failed'' (ErrorMessage message))"
  by (cases "process_job env job") (simp add: processQueue_run_def)

lemma processQueue_run_progress:
  "progress_values (processQueue_run env job) = progress_values (fst (process_job env job))"
  by (cases "process_job env job")
     (simp add: processQueue_run_def progress_values_append split: sum.splits)




subsection \<open>Facts about the queue table\<close>





lemma job_id_set_extras [simp]: "job_id (set_extras ex j) = job_id j"
  by (cases ex) (simp_all add: set_extras_def)

lemma job_status_set_extras [simp]: "job_status (set_extras ex j) = job_status j"
  by (cases ex) (simp_all add: set_extras_def)























subsection \<open>Progress\<close>

text \<open>
  Claim C3, as amended. For every job the processor runs, whatever its outcome, the
  progress values it publishes are non-decreasing and drawn from 0.1, 0.3, 0.7, 0.9 (the
  value 1.0 is never published); when the job reaches status completed the last value
  published is 0.9, and a generate job that completes publishes exactly
  0.1, 0.3, 0.7, 0.9 in that order.
\<close>

theorem processor_progress_sequence:
  "sorted (progress_values (processQueue_run env job))
   \<and> set (progress_values (processQueue_run env job)) \<subseteq> {1/10, 3/10, 7/10, 9/10}
   \<and> (\<forall>g. last (processQueue_run env job) =
             UpdateJobStatus (job_id job) ''completed'' (GenerationId g) \<longrightarrow>
           last (progress_values (processQueue_run env job)) = 9/10
         \<and> (job_type job = ''generate'' \<longrightarrow>
              progress_values (processQueue_run env job) = [1/10, 3/10, 7/10, 9/10]))"
proof (cases "job_type job \<in> {''generate'', ''edit'', ''variation''}")
  case True
  from process_job_shape[OF this, of env] obtain pre ps gen where
    pj: "process_job env job =
             (pre @ fst (generate_and_store env job ps (job_type job) gen),
              snd (generate_and_store env job ps (job_type job) gen))"
    and pre: "pre = [UpdateJobProgress (job_id job) (1/10), UpdateJobProgress (job_id job) (3/10)]
            \<or> pre = [UpdateJobProgress (job_id job) (3/10)]"
    and gen: "job_type job = ''generate'' \<longrightarrow>
              pre = [UpdateJobProgress (job_id job) (1/10), UpdateJobProgress (job_id job) (3/10)]"
    by blast
  let ?gs = "generate_and_store env job ps (job_type job) gen"
  from generate_and_store_calls[OF surjective_pairing, of env job ps "job_type job" gen]
  have shape: "progress_values (fst ?gs) = [] \<or> progress_values (fst ?gs) = [7/10]
         \<or> progress_values (fst ?gs) = [7/10, 9/10]"
    and fin: "\<forall>g. snd ?gs = Inr g \<longrightarrow> progress_values (fst ?gs) = [7/10, 9/10]"
    by blast+
  have pv: "progress_values (processQueue_run env job) =
      progress_values pre @ progress_values (fst ?gs)"
    by (simp add: processQueue_run_progress pj progress_values_append)
  have l: "last (processQueue_run env job) =
     (case snd ?gs of
        Inr generationId \<Rightarrow> UpdateJobStatus (job_id job) ''completed'' (GenerationId generationId)
      | Inl message \<Rightarrow> UpdateJobStatus (job_id job) ''failed'' (ErrorMessage message))"
    by (simp add: processQueue_run_last pj)
  have a: "sorted (progress_values (processQueue_run env job))"
    using pre shape by (auto simp: pv)
  have b: "set (progress_values (processQueue_run env job)) \<subseteq> {1/10, 3/10, 7/10, 9/10}"
    using pre shape by (auto simp: pv)
  have c: "\<forall>g. last (processQueue_run env job) =
             UpdateJobStatus (job_id job) ''completed'' (GenerationId g) \<longrightarrow>
           last (progress_values (processQueue_run env job)) = 9/10
         \<and> (job_type job = ''generate'' \<longrightarrow>
              progress_values (processQueue_run env job) = [1/10, 3/10, 7/10, 9/10])"
  proof (intro allI impI)
    fix g
    assume "last (processQueue_run env job) =
             UpdateJobStatus (job_id job) ''completed'' (GenerationId g)"
    with l have "snd ?gs = Inr g" by (auto split: sum.splits)
    with fin have "progress_values (fst ?gs) = [7/10, 9/10]" by blast
    with pre gen show "last (progress_values (processQueue_run env job)) = 9/10
         \<and> (job_type job = ''generate'' \<longrightarrow>
              progress_values (processQueue_run env job) = [1/10, 3/10, 7/10, 9/10])"
      by (auto simp: pv)
  qed
  from a b c show ?thesis by blast
next
  case False
  then show ?thesis
    by (simp add: processQueue_run_progress processQueue_run_last process_job_unknown)
qed

text \<open>
  The amended C3 at a generate job and an edit job that complete, and at a generate job
  whose engine call fails.
\<close>

theorem processor_progress_sequence_witness:
  "last (processQueue_run example_env (example_job ''j1'' ''generate'' ''pending'' 5)) =
       UpdateJobStatus ''j1'' ''completed'' (GenerationId ''uuid-0'')
   \<and> progress_values (processQueue_run example_env (example_job ''j1'' ''generate'' ''pending'' 5)) =
       [1/10, 3/10, 7/10, 9/10]
   \<and> last (processQueue_run example_env (example_job ''j2'' ''edit'' ''pending'' 3)) =
       UpdateJobStatus ''j2'' ''completed'' (GenerationId ''uuid-0'')
   \<and> last (progress_values (processQueue_run example_env (example_job ''j2'' ''edit'' ''pending'' 3))) = 9/10
   \<and> sorted (progress_values (processQueue_run failing_env (example_job ''j1'' ''generate'' ''pending'' 5)))"
proof -
  let ?j1 = "example_job ''j1'' ''generate'' ''pending'' 5"
  let ?j2 = "example_job ''j2'' ''edit'' ''pending'' 3"
  have d0: "digits 0 = ''0''" by code_simp
  have i1: "job_id ?j1 = ''j1''" and i2: "job_id ?j2 = ''j2''"
    by (simp_all add: example_job_def)
  have t1: "job_type ?j1 = ''generate''"
    by (simp add: example_job_def)
  have l1: "last (processQueue_run example_env ?j1) =
       UpdateJobStatus ''j1'' ''completed'' (GenerationId ''uuid-0'')"
    by (simp add: processQueue_run_def process_job_def processGenerateJob_def
          generate_and_store_def example_env_def example_job_def Let_def d0)
  have l2: "last (processQueue_run example_env ?j2) =
       UpdateJobStatus ''j2'' ''completed'' (GenerationId ''uuid-0'')"
    by (simp add: processQueue_run_def process_job_def processEditJob_def
          generate_and_store_def example_env_def example_job_def Let_def d0)
  from processor_progress_sequence[of example_env ?j1, unfolded i1] l1 t1
  have a: "progress_values (processQueue_run example_env ?j1) = [1/10, 3/10, 7/10, 9/10]"
    by blast
  from processor_progress_sequence[of example_env ?j2, unfolded i2] l2
  have b: "last (progress_values (processQueue_run example_env ?j2)) = 9/10"
    by blast
  from processor_progress_sequence[of failing_env ?j1]
  have c: "sorted (progress_values (processQueue_run failing_env ?j1))"
    by blast
  show ?thesis using l1 l2 a b c by blast
qed

text \<open>
  Claim C3 as stated fails: a generate job that completes publishes 0.1, 0.3, 0.7, 0.9
  and no 1.0.
\<close>

theorem progress_sequence_counterexample:
  "last (processQueue_run example_env (example_job ''j1'' ''generate'' ''pending'' 5)) =
       UpdateJobStatus ''j1'' ''completed'' (GenerationId ''uuid-0'')
   \<and> progress_values (processQueue_run example_env (example_job ''j1'' ''generate'' ''pending'' 5)) =
       [1/10, 3/10, 7/10, 9/10]
   \<and> [1/10, 3/10, 7/10, 9/10] \<noteq> [1/10, 3/10, 7/10, 9/10, (1::rat)]"
proof -
  have d: "digits 0 = ''0''" "digits (Suc 0) = ''1''" by code_simp+
  show ?thesis
    by (simp add: processQueue_run_def process_job_def processGenerateJob_def
          generate_and_store_def example_env_def example_job_def Let_def d)
qed

subsection \<open>Failure isolation\<close>


lemma throws_no_faults: "throws no_faults c = None"
  by (cases c) (simp_all add: no_faults_def)

lemma until_throw_no_faults: "until_throw no_faults cs = (cs, None)"
  by (induction cs) (simp_all add: throws_no_faults)

text \<open>In a database in which no call throws, the two models of \<open>processQueue\<close> agree.\<close>

lemma processQueue_faulty_no_faults:
  "processQueue_faulty no_faults env pr s =
     (case processQueue env pr s of (pr', s', calls) \<Rightarrow> (pr', s', calls, Inr ()))"
proof (cases "processQueue_select pr s")
  case (Pair pr1 sel)
  show ?thesis
  proof (cases sel)
    case None
    with Pair show ?thesis by (simp add: processQueue_faulty_def processQueue_def)
  next
    case (Some job)
    obtain calls r where pj: "process_job env job = (calls, r)" by (cases "process_job env job")
    show ?thesis
      using Pair Some pj
      by (cases r)
         (simp_all add: processQueue_faulty_def processQueue_def try_block_def catch_block_def
            processQueue_run_def until_throw_no_faults throws_no_faults
            del: until_throw.simps throws.simps)
  qed
qed






subsection \<open>Dispatch by job type\<close>




subsection \<open>Claiming\<close>




subsection \<open>Sample steps\<close>

lemma engine_requests_append: "engine_requests (xs @ ys) = engine_requests xs @ engine_requests ys"
  by (induction xs rule: engine_requests.induct) simp_all

lemma save_images_requests: "engine_requests (fst (save_images env g imgs k)) = []"
proof (induction imgs arbitrary: k)
  case Nil
  then show ?case by simp
next
  case (Cons imageData rest)
  show ?case
    using Cons.IH[of "Suc k"]
    by (cases "save_images env g rest (Suc k)")
       (simp add: Let_def split: option.splits)
qed

lemma save_images_no_requests:
  "save_images env g imgs k = (calls, r) \<Longrightarrow> engine_requests calls = []"
  using save_images_requests[of env g imgs k] by simp

lemma generate_and_store_requests:
  "engine_requests (fst (generate_and_store env job ps mode gen)) = [(ps, mode)]"
  by (auto simp: generate_and_store_def engine_requests_append save_images_no_requests
           split: sum.splits option.splits prod.splits)

text \<open>
  Claim C1 fails on the code, by a defect of the code. Whatever \<open>sample_steps\<close> the body
  of a queued request carries, the route does not hand it to \<open>addToQueue\<close>, and the one
  request that the processor hands to the engine for the job consists of \<open>prompt\<close>,
  \<open>negative_prompt\<close>, \<open>size\<close>, \<open>seed\<close>, \<open>n\<close>, \<open>quality\<close> and \<open>style\<close>: the value the user
  supplied is not in it. In particular a request for nine steps and the same request
  without \<open>sample_steps\<close> are processed by the same calls.
\<close>

theorem sample_steps_not_forwarded:
  "engine_requests (processQueue_run env (addToQueue i now (post_queue_generate body))) =
     [(\<lparr>p_prompt = b_prompt body, p_negative_prompt = b_negative_prompt body,
        p_size = b_size body, p_seed = None, p_n = b_n body, p_quality = b_quality body,
        p_style = b_style body\<rparr>, ''generate'')]
   \<and> post_queue_generate (body\<lparr>b_sample_steps := steps\<rparr>) = post_queue_generate body
   \<and> post_queue_edit (body\<lparr>b_sample_steps := steps\<rparr>) = post_queue_edit body
   \<and> post_queue_variation (body\<lparr>b_sample_steps := steps\<rparr>) = post_queue_variation body
   \<and> engine_requests (processQueue_run example_env
        (addToQueue ''j1'' 5 (post_queue_generate (steps_request (Some 9))))) =
       [(\<lparr>p_prompt = Some ''test prompt'', p_negative_prompt = None, p_size = None,
          p_seed = None, p_n = None, p_quality = None, p_style = None\<rparr>, ''generate'')]
   \<and> processQueue_run example_env (addToQueue ''j1'' 5 (post_queue_generate (steps_request (Some 9)))) =
       processQueue_run example_env (addToQueue ''j1'' 5 (post_queue_generate (steps_request None)))"
proof -
  have a: "\<And>(env :: env) i now body.
     engine_requests (processQueue_run env (addToQueue i now (post_queue_generate body))) =
     [(\<lparr>p_prompt = b_prompt body, p_negative_prompt = b_negative_prompt body,
        p_size = b_size body, p_seed = None, p_n = b_n body, p_quality = b_quality body,
        p_style = b_style body\<rparr>, ''generate'')]"
  proof -
    fix env :: env and i now body
    let ?job = "addToQueue i now (post_queue_generate body)"
    let ?ps = "\<lparr>p_prompt = b_prompt body, p_negative_prompt = b_negative_prompt body,
        p_size = b_size body, p_seed = None, p_n = b_n body, p_quality = b_quality body,
        p_style = b_style body\<rparr>"
    let ?gen = "\<lparr>g_id = randomUUID env 0, g_type = ''generate'', g_model = job_model ?job,
                 g_prompt = job_prompt ?job, g_negative_prompt = job_negative_prompt ?job,
                 g_size = job_size ?job, g_seed = job_seed ?job, g_n = job_n ?job,
                 g_quality = job_quality ?job, g_style = job_style ?job,
                 g_source_image_id = None\<rparr>"
    have ty: "job_type ?job = ''generate''" by (simp add: addToQueue_def post_queue_generate_def)
    have ps: "\<lparr>p_prompt = job_prompt ?job, p_negative_prompt = job_negative_prompt ?job,
                p_size = job_size ?job, p_seed = seed_param env ?job, p_n = job_n ?job,
                p_quality = job_quality ?job, p_style = job_style ?job\<rparr> = ?ps"
      by (simp add: addToQueue_def post_queue_generate_def seed_param_def)
    have pj: "process_job env ?job =
        ([UpdateJobProgress (job_id ?job) (1/10), UpdateJobProgress (job_id ?job) (3/10)]
           @ fst (generate_and_store env ?job ?ps ''generate'' ?gen),
         snd (generate_and_store env ?job ?ps ''generate'' ?gen))"
      unfolding process_job_def processGenerateJob_def Let_def ps
      by (simp add: ty case_prod_beta)
    show "engine_requests (processQueue_run env ?job) = [(?ps, ''generate'')]"
      unfolding processQueue_run_def pj
      by (simp add: engine_requests_append generate_and_store_requests split: sum.splits)
  qed
  have b: "processQueue_run example_env (addToQueue ''j1'' 5 (post_queue_generate (steps_request (Some 9)))) =
       processQueue_run example_env (addToQueue ''j1'' 5 (post_queue_generate (steps_request None)))"
    by (simp add: post_queue_generate_def steps_request_def)
  have c: "engine_requests (processQueue_run example_env
        (addToQueue ''j1'' 5 (post_queue_generate (steps_request (Some 9))))) =
       [(\<lparr>p_prompt = Some ''test prompt'', p_negative_prompt = None, p_size = None,
          p_seed = None, p_n = None, p_quality = None, p_style = None\<rparr>, ''generate'')]"
    unfolding a by (simp add: steps_request_def)
  have d: "post_queue_generate (body\<lparr>b_sample_steps := steps\<rparr>) = post_queue_generate body"
    by (simp add: post_queue_generate_def)
  have e: "post_queue_edit (body\<lparr>b_sample_steps := steps\<rparr>) = post_queue_edit body"
    by (simp add: post_queue_edit_def)
  have f: "post_queue_variation (body\<lparr>b_sample_steps := steps\<rparr>) = post_queue_variation body"
    by (simp add: post_queue_variation_def)
  from a[of env i now body] d e f c b show ?thesis by blast
qed

end
